theory Spec2Isabelle
  imports Complex_Main "HOL-Library.Word" "HOL-Library.Sublist"
begin

section \<open>Strings of the runtime\<close>

text \<open>
  A JavaScript string is a sequence of 16-bit code units. String literals of the source
  are ASCII; \<open>js\<close> embeds such a literal, one code unit per character.
\<close>

type_synonym code_unit = "16 word"
type_synonym js_string = "code_unit list"

definition js :: "string \<Rightarrow> js_string" where
  "js s = map (\<lambda>c. of_nat (of_char c)) s"

text \<open>
  \<open>String.prototype.trim\<close> removes leading and trailing white space and line terminators.
  The table is the one of ECMAScript: TAB, LF, VT, FF, CR, SPACE, NBSP, the space
  separators U+1680, U+2000 to U+200A, U+202F, U+205F, U+3000, the line and paragraph
  separators U+2028 and U+2029, and U+FEFF.
\<close>

definition is_whitespace :: "code_unit \<Rightarrow> bool" where
  "is_whitespace c =
     (c \<in> set [0x0009, 0x000A, 0x000B, 0x000C, 0x000D, 0x0020, 0x00A0, 0x1680,
               0x2000, 0x2001, 0x2002, 0x2003, 0x2004, 0x2005, 0x2006, 0x2007,
               0x2008, 0x2009, 0x200A, 0x2028, 0x2029, 0x202F, 0x205F, 0x3000, 0xFEFF])"

definition trim :: "js_string \<Rightarrow> js_string" where
  "trim s = rev (dropWhile is_whitespace (rev (dropWhile is_whitespace s)))"

text \<open>The operator \<open>a || b\<close> on strings: the empty string is falsy.\<close>

definition js_or :: "js_string \<Rightarrow> js_string \<Rightarrow> js_string" where
  "js_or a b = (if a = [] then b else a)"

text \<open>A number with an integral, non-negative value inside a template literal: its decimal digits.\<close>

function string_of_nat :: "nat \<Rightarrow> js_string" where
  "string_of_nat n =
     (if n < 10 then [of_nat (48 + n)]
      else string_of_nat (n div 10) @ [of_nat (48 + n mod 10)])"
  by pat_completeness auto
termination
  by (relation "measure (\<lambda>n. n)") auto

declare string_of_nat.simps [simp del]

section \<open>Data model of the API client\<close>

text \<open>
  The client is the revision of \<open>api.ts\<close> that has both \<open>analyzeJournalEntry\<close> and
  \<open>getCopingSuggestion\<close>, and the view is the revision of \<open>App.tsx\<close> that calls both.
  A \<open>number\<close> of a response is only held and shown, never computed with.
\<close>

type_synonym number = real

record SentenceBreakdown =
  sentence :: js_string
  emotion :: js_string
  stress_level :: js_string
  stress_score :: number
  scores :: "(js_string \<times> number) list"

record CopingRequest =
  journal :: js_string
  primary_emotion :: js_string
  stress_level :: js_string

record CopingResponse =
  coping_text :: js_string

record AnalyzeResponse =
  primary_emotion :: js_string
  stress_level :: js_string
  stress_score :: number
  scores :: "(js_string \<times> number) list"
  coping_strategy :: js_string
  sentence_breakdown :: "SentenceBreakdown list"

text \<open>A thrown value: \<open>new Error(message)\<close>, or an error the platform rejects a promise with.\<close>

datatype js_error = Error (message: js_string)

text \<open>
  The value handed to \<open>JSON.stringify\<close> for a request body. The serialiser itself belongs
  to the platform; a request keeps the value it serialises.
\<close>

datatype json = JString js_string | JObject "(js_string \<times> json) list"

record http_request =
  url :: js_string
  "method" :: js_string
  headers :: "(js_string \<times> js_string) list"
  body :: json

text \<open>
  What the client reads of a \<open>Response\<close>: \<open>res.status\<close>, \<open>res.statusText\<close> and the body
  that \<open>res.text()\<close> yields. \<open>res.ok\<close> is true exactly for a status from 200 to 299.
\<close>

record response =
  status :: nat
  statusText :: js_string
  "text" :: js_string

definition ok :: "response \<Rightarrow> bool" where
  "ok res = (200 \<le> status res \<and> status res \<le> 299)"

text \<open>
  The platform and the backend behind it: \<open>fetch\<close> resolves with a response or rejects
  (a network failure); \<open>res.json()\<close> parses the body and rejects (a body that is not JSON)
  or resolves with the parsed value. The client applies no validation of its own to that
  value, and the declared types are erased at run time, so the value may be \<open>null\<close>
  (\<open>None\<close>); any other parsed value is taken at the type the client declares for it.
  Reading a property of \<open>null\<close> throws a \<open>TypeError\<close>, whose message is the engine's:
  \<open>null_property_error\<close> gives it for the name of the property. Every call settles: the
  client sets no timeout, and a handler whose call never settles never completes, so it
  reaches none of the states described below.
\<close>

record platform =
  fetch :: "http_request \<Rightarrow> js_error + response"
  json_AnalyzeResponse :: "response \<Rightarrow> js_error + AnalyzeResponse option"
  json_CopingResponse :: "response \<Rightarrow> js_error + CopingResponse option"
  null_property_error :: "js_string \<Rightarrow> js_error"

section \<open>Observable effects\<close>

datatype Page = Home | About

text \<open>
  What the component does to the outside, in the order it does it: the six state setters
  of its \<open>useState\<close> hooks, a \<open>fetch\<close>, and \<open>console.error\<close>.
\<close>

datatype effect =
    SetText js_string
  | SetLoading bool
  | SetError "js_string option"
  | SetResult "AnalyzeResponse option"
  | SetPage Page
  | SetCopingText js_string
  | Fetch http_request
  | ConsoleError js_error

section \<open>API client\<close>

definition API_BASE_URL :: js_string where
  "API_BASE_URL = js ''http://127.0.0.1:8000''"

definition stringify_AnalyzeRequest :: "js_string \<Rightarrow> json" where
  "stringify_AnalyzeRequest t = JObject [(js ''text'', JString t)]"

definition stringify_CopingRequest :: "CopingRequest \<Rightarrow> json" where
  "stringify_CopingRequest b =
     JObject [(js ''journal'', JString (journal b)),
              (js ''primary_emotion'', JString (CopingRequest.primary_emotion b)),
              (js ''stress_level'', JString (CopingRequest.stress_level b))]"

definition predict_request :: "js_string \<Rightarrow> http_request" where
  "predict_request t =
     \<lparr>url = API_BASE_URL @ js ''/predict'',
      method = js ''POST'',
      headers = [(js ''Content-Type'', js ''application/json'')],
      body = stringify_AnalyzeRequest t\<rparr>"

definition coping_request :: "CopingRequest \<Rightarrow> http_request" where
  "coping_request b =
     \<lparr>url = API_BASE_URL @ js ''/coping'',
      method = js ''POST'',
      headers = [(js ''Content-Type'', js ''application/json'')],
      body = stringify_CopingRequest b\<rparr>"

text \<open>
  Each client function returns the effects it caused and how its promise settled:
  \<open>Inl\<close> the error it rejected with, \<open>Inr\<close> the value it resolved with (\<open>None\<close> when
  the body parsed to \<open>null\<close>).
\<close>

definition analyzeJournalEntry :: "platform \<Rightarrow> js_string \<Rightarrow> effect list \<times> (js_error + AnalyzeResponse option)" where
  "analyzeJournalEntry p t =
     (let req = predict_request t in
      case fetch p req of
        Inl e \<Rightarrow> ([Fetch req], Inl e)
      | Inr res \<Rightarrow>
          if \<not> ok res then
            (let errorText = response.text res in
             ([Fetch req],
              Inl (Error (js ''API error '' @ string_of_nat (status res) @ js '': ''
                          @ js_or errorText (statusText res)))))
          else ([Fetch req], json_AnalyzeResponse p res))"

definition getCopingSuggestion :: "platform \<Rightarrow> CopingRequest \<Rightarrow> effect list \<times> (js_error + CopingResponse option)" where
  "getCopingSuggestion p b =
     (let req = coping_request b in
      case fetch p req of
        Inl e \<Rightarrow> ([Fetch req], Inl e)
      | Inr res \<Rightarrow>
          if \<not> ok res then ([Fetch req], Inl (Error (js ''Failed to get coping suggestions'')))
          else ([Fetch req], json_CopingResponse p res))"

section \<open>View component\<close>

record ui_state =
  "text" :: js_string
  loading :: bool
  error :: "js_string option"
  result :: "AnalyzeResponse option"
  page :: Page
  copingText :: js_string

text \<open>
  The body of the \<open>try\<close> block of \<open>handleAnalyze\<close>: its effects, and the error it threw if
  any. \<open>setResult(data)\<close> is called with whatever the first call resolved with. The
  argument of \<open>getCopingSuggestion\<close> is built before the call, so \<open>data.primary_emotion\<close>
  on a \<open>null\<close> throws before any request to \<open>/coping\<close>; \<open>coping.coping_text\<close> on a
  \<open>null\<close> throws before \<open>setCopingText\<close> is called.
\<close>

definition handleAnalyze_try :: "platform \<Rightarrow> js_string \<Rightarrow> effect list \<times> js_error option" where
  "handleAnalyze_try p t =
     (case analyzeJournalEntry p t of
        (es1, Inl err) \<Rightarrow> ([SetLoading True] @ es1, Some err)
      | (es1, Inr None) \<Rightarrow>
          ([SetLoading True] @ es1 @ [SetResult None],
           Some (null_property_error p (js ''primary_emotion'')))
      | (es1, Inr (Some data)) \<Rightarrow>
          (case getCopingSuggestion p
                  \<lparr>journal = t,
                   CopingRequest.primary_emotion = primary_emotion data,
                   CopingRequest.stress_level = stress_level data\<rparr> of
             (es2, Inl err) \<Rightarrow>
               ([SetLoading True] @ es1 @ [SetResult (Some data)] @ es2, Some err)
           | (es2, Inr None) \<Rightarrow>
               ([SetLoading True] @ es1 @ [SetResult (Some data)] @ es2,
                Some (null_property_error p (js ''coping_text'')))
           | (es2, Inr (Some coping)) \<Rightarrow>
               ([SetLoading True] @ es1 @ [SetResult (Some data)] @ es2
                  @ [SetCopingText (coping_text coping)], None)))"

text \<open>
  \<open>handleAnalyze\<close> closes over the \<open>text\<close> of the render it was created in; it returns the
  effects of one click on the submit control, in order.
\<close>

definition handleAnalyze :: "platform \<Rightarrow> js_string \<Rightarrow> effect list" where
  "handleAnalyze p t =
     [SetError None, SetResult None, SetCopingText []] @
     (if trim t = [] then
        [SetError (Some (js ''Please write a short journal entry first.''))]
      else
        (case handleAnalyze_try p t of
           (es, None) \<Rightarrow> es @ [SetLoading False]
         | (es, Some err) \<Rightarrow>
             es @ [ConsoleError err,
                   SetError (Some (js_or (message err)
                                         (js ''Something went wrong. Please try again.'')))]
                @ [SetLoading False]))"

text \<open>
  The state setters queue updates of the component's state; the other effects leave it
  alone. React commits queued updates in the order of the calls, at a render after the
  handler has yielded, so a setter does not change what the running handler or a
  \<open>fetch\<close> issued right after it sees. \<open>run s es\<close> is the state once every update of
  \<open>es\<close> is committed; it is used for the state a finished submission leaves, and says
  nothing about the renders in between.
\<close>

fun apply_effect :: "ui_state \<Rightarrow> effect \<Rightarrow> ui_state" where
  "apply_effect s (SetText v) = s\<lparr>text := v\<rparr>"
| "apply_effect s (SetLoading v) = s\<lparr>loading := v\<rparr>"
| "apply_effect s (SetError v) = s\<lparr>error := v\<rparr>"
| "apply_effect s (SetResult v) = s\<lparr>result := v\<rparr>"
| "apply_effect s (SetPage v) = s\<lparr>page := v\<rparr>"
| "apply_effect s (SetCopingText v) = s\<lparr>copingText := v\<rparr>"
| "apply_effect s (Fetch r) = s"
| "apply_effect s (ConsoleError e) = s"

definition run :: "ui_state \<Rightarrow> effect list \<Rightarrow> ui_state" where
  "run s es = foldl apply_effect s es"

text \<open>
  One submission: the handler of the current render runs to completion, and all its
  updates are committed.
\<close>

definition submit :: "platform \<Rightarrow> ui_state \<Rightarrow> ui_state" where
  "submit p s = run s (handleAnalyze p (ui_state.text s))"

fun is_Fetch :: "effect \<Rightarrow> bool" where
  "is_Fetch (Fetch r) = True"
| "is_Fetch _ = False"

fun fetches :: "effect list \<Rightarrow> http_request list" where
  "fetches [] = []"
| "fetches (Fetch r # es) = r # fetches es"
| "fetches (e # es) = fetches es"

text \<open>The values that a run of effects passes to \<open>setLoading\<close>, in order.\<close>

fun loading_updates :: "effect list \<Rightarrow> bool list" where
  "loading_updates [] = []"
| "loading_updates (SetLoading b # es) = b # loading_updates es"
| "loading_updates (e # es) = loading_updates es"

section \<open>An example backend\<close>

text \<open>
  The example of the specification: the entry \<open>I feel overwhelmed today\<close>, classified as
  anxiety with a high stress level, and the suggestion of a short breathing exercise.
  The backend answers \<open>/predict\<close> and \<open>/coping\<close> with the two responses it is given. A
  body that reads \<open>null\<close> parses to \<open>null\<close>; any other body stands for the JSON text of
  the example's analysis or suggestion. The \<open>TypeError\<close> has the message that V8 gives it.
\<close>

definition example_text :: js_string where
  "example_text = js ''I feel overwhelmed today''"

definition example_analysis :: AnalyzeResponse where
  "example_analysis =
     \<lparr>primary_emotion = js ''anxiety'',
      stress_level = js ''high'',
      stress_score = 82 / 100,
      scores = [(js ''anxiety'', 82 / 100), (js ''joy'', 18 / 100)],
      coping_strategy = js ''breathing'',
      sentence_breakdown =
        [\<lparr>sentence = js ''I feel overwhelmed today'',
          emotion = js ''anxiety'',
          SentenceBreakdown.stress_level = js ''high'',
          SentenceBreakdown.stress_score = 82 / 100,
          SentenceBreakdown.scores = [(js ''anxiety'', 82 / 100), (js ''joy'', 18 / 100)]\<rparr>]\<rparr>"

definition example_coping :: CopingResponse where
  "example_coping = \<lparr>coping_text = js ''Try a short breathing exercise.''\<rparr>"

definition example_response :: "nat \<Rightarrow> js_string \<Rightarrow> js_string \<Rightarrow> response" where
  "example_response st reason content = \<lparr>status = st, statusText = reason, response.text = content\<rparr>"

definition example_null_error :: "js_string \<Rightarrow> js_error" where
  "example_null_error name =
     Error (js ''Cannot read properties of null (reading '' @ [0x0027] @ name @ [0x0027] @ js '')'')"

definition example_backend :: "response \<Rightarrow> response \<Rightarrow> platform" where
  "example_backend predict_res coping_res =
     \<lparr>fetch = (\<lambda>req. if url req = js ''http://127.0.0.1:8000/predict'' then Inr predict_res
                       else Inr coping_res),
      json_AnalyzeResponse =
        (\<lambda>res. if response.text res = js ''null'' then Inr None else Inr (Some example_analysis)),
      json_CopingResponse =
        (\<lambda>res. if response.text res = js ''null'' then Inr None else Inr (Some example_coping)),
      null_property_error = example_null_error\<rparr>"

definition padded_text :: js_string where
  "padded_text = js ''  I feel overwhelmed today ''"

definition blank_text :: js_string where
  "blank_text = [0x0020, 0x0009, 0x000A, 0x00A0, 0x3000]"

definition backend_ok :: platform where
  "backend_ok =
     example_backend (example_response 200 (js ''OK'') (js ''{}''))
                     (example_response 200 (js ''OK'') (js ''{}''))"

definition predict_500 :: response where
  "predict_500 = example_response 500 (js ''Internal Server Error'') (js ''boom'')"

definition predict_404 :: response where
  "predict_404 = example_response 404 (js ''Not Found'') []"

definition coping_503 :: response where
  "coping_503 = example_response 503 (js ''Service Unavailable'') (js ''overloaded'')"

definition backend_predict_500 :: platform where
  "backend_predict_500 = example_backend predict_500 (example_response 200 (js ''OK'') (js ''{}''))"

definition backend_predict_404 :: platform where
  "backend_predict_404 = example_backend predict_404 (example_response 200 (js ''OK'') (js ''{}''))"

definition backend_coping_503 :: platform where
  "backend_coping_503 = example_backend (example_response 200 (js ''OK'') (js ''{}'')) coping_503"

definition backend_predict_null :: platform where
  "backend_predict_null =
     example_backend (example_response 200 (js ''OK'') (js ''null''))
                     (example_response 200 (js ''OK'') (js ''{}''))"

definition backend_coping_null :: platform where
  "backend_coping_null =
     example_backend (example_response 200 (js ''OK'') (js ''{}''))
                     (example_response 200 (js ''OK'') (js ''null''))"

definition predict_teapot :: response where
  "predict_teapot = example_response 404 (js ''Teapot'') []"

definition predict_no_phrase :: response where
  "predict_no_phrase = example_response 404 [] []"

definition backend_predict_teapot :: platform where
  "backend_predict_teapot =
     example_backend predict_teapot (example_response 200 (js ''OK'') (js ''{}''))"

definition backend_predict_no_phrase :: platform where
  "backend_predict_no_phrase =
     example_backend predict_no_phrase (example_response 200 (js ''OK'') (js ''{}''))"

text \<open>
  The wording to compare the client with: the reason phrase that the HTTP standard
  (RFC 9110) lists for a status code. The client never consults such a table; it reads
  \<open>res.statusText\<close>, the phrase the server sent, which HTTP/2 and HTTP/3 leave empty.
\<close>

definition standard_reason_phrases :: "(nat \<times> string) list" where
  "standard_reason_phrases =
     [(400, ''Bad Request''), (401, ''Unauthorized''), (403, ''Forbidden''),
      (404, ''Not Found''), (405, ''Method Not Allowed''), (408, ''Request Timeout''),
      (409, ''Conflict''), (413, ''Content Too Large''), (415, ''Unsupported Media Type''),
      (422, ''Unprocessable Content''), (429, ''Too Many Requests''),
      (500, ''Internal Server Error''), (501, ''Not Implemented''), (502, ''Bad Gateway''),
      (503, ''Service Unavailable''), (504, ''Gateway Timeout'')]"

definition standard_reason_phrase :: "nat \<Rightarrow> js_string option" where
  "standard_reason_phrase st = map_option js (map_of standard_reason_phrases st)"

definition example_state :: "js_string \<Rightarrow> ui_state" where
  "example_state t =
     \<lparr>ui_state.text = t, loading = False, error = Some (js ''stale error''),
      result = None, page = About, copingText = js ''stale suggestion''\<rparr>"

section \<open>Traces of the handler\<close>

lemma analyze_effects: "fst (analyzeJournalEntry p t) = [Fetch (predict_request t)]"
  by (simp add: analyzeJournalEntry_def Let_def split: sum.split)

lemma coping_effects: "fst (getCopingSuggestion p b) = [Fetch (coping_request b)]"
  by (simp add: getCopingSuggestion_def Let_def split: sum.split)

lemma handleAnalyze_blank:
  "trim t = [] \<Longrightarrow> handleAnalyze p t =
     [SetError None, SetResult None, SetCopingText [],
      SetError (Some (js ''Please write a short journal entry first.''))]"
  by (simp add: handleAnalyze_def)

lemma handleAnalyze_analyze_fails:
  assumes "trim t \<noteq> []" and "snd (analyzeJournalEntry p t) = Inl err"
  shows "handleAnalyze p t =
     [SetError None, SetResult None, SetCopingText [], SetLoading True,
      Fetch (predict_request t), ConsoleError err,
      SetError (Some (js_or (message err) (js ''Something went wrong. Please try again.''))),
      SetLoading False]"
proof -
  have "analyzeJournalEntry p t = ([Fetch (predict_request t)], Inl err)"
    using assms(2) analyze_effects [of p t] by (cases "analyzeJournalEntry p t") simp
  then show ?thesis
    using assms(1) by (simp add: handleAnalyze_def handleAnalyze_try_def)
qed

lemma handleAnalyze_coping_fails:
  assumes "trim t \<noteq> []" and "snd (analyzeJournalEntry p t) = Inr (Some data)"
    and "snd (getCopingSuggestion p \<lparr>journal = t,
            CopingRequest.primary_emotion = primary_emotion data,
            CopingRequest.stress_level = stress_level data\<rparr>) = Inl err"
  shows "handleAnalyze p t =
     [SetError None, SetResult None, SetCopingText [], SetLoading True,
      Fetch (predict_request t), SetResult (Some data),
      Fetch (coping_request \<lparr>journal = t,
            CopingRequest.primary_emotion = primary_emotion data,
            CopingRequest.stress_level = stress_level data\<rparr>),
      ConsoleError err,
      SetError (Some (js_or (message err) (js ''Something went wrong. Please try again.''))),
      SetLoading False]"
proof -
  let ?b = "\<lparr>journal = t, CopingRequest.primary_emotion = primary_emotion data,
            CopingRequest.stress_level = stress_level data\<rparr>"
  have a: "analyzeJournalEntry p t = ([Fetch (predict_request t)], Inr (Some data))"
    using assms(2) analyze_effects [of p t] by (cases "analyzeJournalEntry p t") simp
  have c: "getCopingSuggestion p ?b = ([Fetch (coping_request ?b)], Inl err)"
    using assms(3) coping_effects [of p ?b] by (cases "getCopingSuggestion p ?b") simp
  show ?thesis
    using assms(1) by (simp add: handleAnalyze_def handleAnalyze_try_def a c)
qed

lemma handleAnalyze_success:
  assumes "trim t \<noteq> []" and "snd (analyzeJournalEntry p t) = Inr (Some data)"
    and "snd (getCopingSuggestion p \<lparr>journal = t,
            CopingRequest.primary_emotion = primary_emotion data,
            CopingRequest.stress_level = stress_level data\<rparr>) = Inr (Some coping)"
  shows "handleAnalyze p t =
     [SetError None, SetResult None, SetCopingText [], SetLoading True,
      Fetch (predict_request t), SetResult (Some data),
      Fetch (coping_request \<lparr>journal = t,
            CopingRequest.primary_emotion = primary_emotion data,
            CopingRequest.stress_level = stress_level data\<rparr>),
      SetCopingText (coping_text coping),
      SetLoading False]"
proof -
  let ?b = "\<lparr>journal = t, CopingRequest.primary_emotion = primary_emotion data,
            CopingRequest.stress_level = stress_level data\<rparr>"
  have a: "analyzeJournalEntry p t = ([Fetch (predict_request t)], Inr (Some data))"
    using assms(2) analyze_effects [of p t] by (cases "analyzeJournalEntry p t") simp
  have c: "getCopingSuggestion p ?b = ([Fetch (coping_request ?b)], Inr (Some coping))"
    using assms(3) coping_effects [of p ?b] by (cases "getCopingSuggestion p ?b") simp
  show ?thesis
    using assms(1) by (simp add: handleAnalyze_def handleAnalyze_try_def a c)
qed

lemma handleAnalyze_analyze_null:
  assumes "trim t \<noteq> []" and "snd (analyzeJournalEntry p t) = Inr None"
  shows "handleAnalyze p t =
     [SetError None, SetResult None, SetCopingText [], SetLoading True,
      Fetch (predict_request t), SetResult None,
      ConsoleError (null_property_error p (js ''primary_emotion'')),
      SetError (Some (js_or (message (null_property_error p (js ''primary_emotion'')))
                            (js ''Something went wrong. Please try again.''))),
      SetLoading False]"
proof -
  have "analyzeJournalEntry p t = ([Fetch (predict_request t)], Inr None)"
    using assms(2) analyze_effects [of p t] by (cases "analyzeJournalEntry p t") simp
  then show ?thesis
    using assms(1) by (simp add: handleAnalyze_def handleAnalyze_try_def)
qed

lemma handleAnalyze_coping_null:
  assumes "trim t \<noteq> []" and "snd (analyzeJournalEntry p t) = Inr (Some data)"
    and "snd (getCopingSuggestion p \<lparr>journal = t,
            CopingRequest.primary_emotion = primary_emotion data,
            CopingRequest.stress_level = stress_level data\<rparr>) = Inr None"
  shows "handleAnalyze p t =
     [SetError None, SetResult None, SetCopingText [], SetLoading True,
      Fetch (predict_request t), SetResult (Some data),
      Fetch (coping_request \<lparr>journal = t,
            CopingRequest.primary_emotion = primary_emotion data,
            CopingRequest.stress_level = stress_level data\<rparr>),
      ConsoleError (null_property_error p (js ''coping_text'')),
      SetError (Some (js_or (message (null_property_error p (js ''coping_text'')))
                            (js ''Something went wrong. Please try again.''))),
      SetLoading False]"
proof -
  let ?b = "\<lparr>journal = t, CopingRequest.primary_emotion = primary_emotion data,
            CopingRequest.stress_level = stress_level data\<rparr>"
  have a: "analyzeJournalEntry p t = ([Fetch (predict_request t)], Inr (Some data))"
    using assms(2) analyze_effects [of p t] by (cases "analyzeJournalEntry p t") simp
  have c: "getCopingSuggestion p ?b = ([Fetch (coping_request ?b)], Inr None)"
    using assms(3) coping_effects [of p ?b] by (cases "getCopingSuggestion p ?b") simp
  show ?thesis
    using assms(1) by (simp add: handleAnalyze_def handleAnalyze_try_def a c)
qed

text \<open>The five ways a submission that passed validation can go.\<close>

lemma handleAnalyze_paths:
  assumes "trim t \<noteq> []"
  obtains
    (analyze_fails) err where "snd (analyzeJournalEntry p t) = Inl err"
  | (analyze_null) "snd (analyzeJournalEntry p t) = Inr None"
  | (coping_fails) data err where "snd (analyzeJournalEntry p t) = Inr (Some data)"
      and "snd (getCopingSuggestion p \<lparr>journal = t,
            CopingRequest.primary_emotion = primary_emotion data,
            CopingRequest.stress_level = stress_level data\<rparr>) = Inl err"
  | (coping_null) data where "snd (analyzeJournalEntry p t) = Inr (Some data)"
      and "snd (getCopingSuggestion p \<lparr>journal = t,
            CopingRequest.primary_emotion = primary_emotion data,
            CopingRequest.stress_level = stress_level data\<rparr>) = Inr None"
  | (success) data coping where "snd (analyzeJournalEntry p t) = Inr (Some data)"
      and "snd (getCopingSuggestion p \<lparr>journal = t,
            CopingRequest.primary_emotion = primary_emotion data,
            CopingRequest.stress_level = stress_level data\<rparr>) = Inr (Some coping)"
proof (cases "snd (analyzeJournalEntry p t)")
  case (Inl err)
  then show ?thesis by (rule analyze_fails)
next
  case (Inr parsed)
  show ?thesis
  proof (cases parsed)
    case None
    with Inr show ?thesis by (simp add: analyze_null)
  next
    case (Some data)
    with Inr have a: "snd (analyzeJournalEntry p t) = Inr (Some data)" by simp
    show ?thesis
    proof (cases "snd (getCopingSuggestion p \<lparr>journal = t,
            CopingRequest.primary_emotion = primary_emotion data,
            CopingRequest.stress_level = stress_level data\<rparr>)")
      case (Inl err)
      with a show ?thesis by (rule coping_fails)
    next
      case (Inr parsed')
      show ?thesis
      proof (cases parsed')
        case None
        with Inr a show ?thesis by (simp add: coping_null)
      next
        case (Some coping)
        with Inr a show ?thesis by (simp add: success)
      qed
    qed
  qed
qed

lemma predict_url: "url (predict_request t) = js ''http://127.0.0.1:8000/predict''"
  by (simp add: predict_request_def API_BASE_URL_def js_def)

lemma coping_url: "url (coping_request b) = js ''http://127.0.0.1:8000/coping''"
  by (simp add: coping_request_def API_BASE_URL_def js_def)

lemma urls_differ: "js ''http://127.0.0.1:8000/coping'' \<noteq> js ''http://127.0.0.1:8000/predict''"
  by (simp add: js_def)

text \<open>
  When the two client calls resolve, in terms of what the platform answered; the value is
  \<open>None\<close> for a body that parsed to \<open>null\<close>.
\<close>

lemma analyze_resolves_iff:
  "snd (analyzeJournalEntry p t) = Inr data \<longleftrightarrow>
     (\<exists>res. fetch p (predict_request t) = Inr res \<and> ok res \<and> json_AnalyzeResponse p res = Inr data)"
  by (auto simp: analyzeJournalEntry_def Let_def split: sum.splits)

lemma coping_resolves_iff:
  "snd (getCopingSuggestion p b) = Inr coping \<longleftrightarrow>
     (\<exists>res. fetch p (coping_request b) = Inr res \<and> ok res \<and> json_CopingResponse p res = Inr coping)"
  by (auto simp: getCopingSuggestion_def Let_def split: sum.splits)

lemma analyze_http_failure:
  assumes "fetch p (predict_request t) = Inr res" and "\<not> ok res"
  shows "snd (analyzeJournalEntry p t) =
     Inl (Error (js ''API error '' @ string_of_nat (status res) @ js '': ''
                 @ (if response.text res = [] then statusText res else response.text res)))"
  using assms by (simp add: analyzeJournalEntry_def Let_def js_or_def)

lemma coping_http_failure:
  assumes "fetch p (coping_request b) = Inr res" and "\<not> ok res"
  shows "snd (getCopingSuggestion p b) = Inl (Error (js ''Failed to get coping suggestions''))"
  using assms by (simp add: getCopingSuggestion_def Let_def)

text \<open>The decimal digits of a status code, and the message of the coping error.\<close>

lemma string_of_nat_nonempty: "string_of_nat n \<noteq> []"
  by (subst string_of_nat.simps) simp

lemma last_string_of_nat: "last (string_of_nat n) = of_nat (48 + n mod 10)"
  by (subst string_of_nat.simps) (simp add: string_of_nat_nonempty)

lemma sublist_last_mem: "sublist xs ys \<Longrightarrow> xs \<noteq> [] \<Longrightarrow> last xs \<in> set ys"
  by (auto simp: sublist_def)

lemma digit_cases:
  assumes "k < (10::nat)"
  shows "k = 0 \<or> k = 1 \<or> k = 2 \<or> k = 3 \<or> k = 4 \<or> k = 5 \<or> k = 6 \<or> k = 7 \<or> k = 8 \<or> k = 9"
  using assms by arith

lemma coping_message_no_digit:
  assumes "k < (10::nat)"
  shows "(of_nat (48 + k) :: code_unit) \<notin> set (js ''Failed to get coping suggestions'')"
  using digit_cases [OF assms] by (elim disjE) (simp_all add: js_def)

lemma status_not_in_coping_message:
  "\<not> sublist (string_of_nat n) (js ''Failed to get coping suggestions'')"
proof
  assume "sublist (string_of_nat n) (js ''Failed to get coping suggestions'')"
  then have "last (string_of_nat n) \<in> set (js ''Failed to get coping suggestions'')"
    using string_of_nat_nonempty by (rule sublist_last_mem)
  moreover have "n mod 10 < 10" by simp
  ultimately show False
    using coping_message_no_digit [of "n mod 10"] by (simp add: last_string_of_nat)
qed

section \<open>Facts about the example backend\<close>

lemma example_fetch_predict:
  "fetch (example_backend r1 r2) (predict_request t) = Inr r1"
  by (simp add: example_backend_def predict_url)

lemma example_fetch_coping:
  "fetch (example_backend r1 r2) (coping_request b) = Inr r2"
  by (simp add: example_backend_def coping_url urls_differ)

lemma example_text_not_blank: "trim example_text \<noteq> []"
  by (simp add: example_text_def trim_def js_def is_whitespace_def)

lemma example_ok: "ok (example_response 200 reason content)"
  by (simp add: ok_def example_response_def)

lemma example_body_not_null: "js ''{}'' \<noteq> js ''null''"
  by (simp add: js_def)

lemma example_analyze_ok:
  "snd (analyzeJournalEntry (example_backend (example_response 200 reason (js ''{}'')) r2) t)
     = Inr (Some example_analysis)"
  by (simp add: analyzeJournalEntry_def Let_def example_fetch_predict example_ok)
     (simp add: example_backend_def example_response_def example_body_not_null)

lemma example_coping_ok:
  "snd (getCopingSuggestion (example_backend r1 (example_response 200 reason (js ''{}''))) b)
     = Inr (Some example_coping)"
  by (simp add: getCopingSuggestion_def Let_def example_fetch_coping example_ok)
     (simp add: example_backend_def example_response_def example_body_not_null)

lemma example_analyze_null:
  "snd (analyzeJournalEntry (example_backend (example_response 200 reason (js ''null'')) r2) t)
     = Inr None"
  by (simp add: analyzeJournalEntry_def Let_def example_fetch_predict example_ok)
     (simp add: example_backend_def example_response_def)

lemma example_coping_null:
  "snd (getCopingSuggestion (example_backend r1 (example_response 200 reason (js ''null''))) b)
     = Inr None"
  by (simp add: getCopingSuggestion_def Let_def example_fetch_coping example_ok)
     (simp add: example_backend_def example_response_def)

lemma blank_text_blank: "trim blank_text = []"
  by (simp add: blank_text_def trim_def is_whitespace_def)

lemma padded_text_not_blank: "trim padded_text \<noteq> []"
  by (simp add: padded_text_def trim_def js_def is_whitespace_def)

lemma padded_text_trimmed: "trim padded_text = example_text"
  by (simp add: padded_text_def example_text_def trim_def js_def is_whitespace_def)

lemma example_not_ok: "\<not> ok predict_500" "\<not> ok predict_404" "\<not> ok coping_503"
  "\<not> ok predict_teapot" "\<not> ok predict_no_phrase"
  by (simp_all add: ok_def example_response_def predict_500_def predict_404_def coping_503_def
      predict_teapot_def predict_no_phrase_def)

lemma standard_reason_phrase_404: "standard_reason_phrase 404 = Some (js ''Not Found'')"
  by (simp add: standard_reason_phrase_def standard_reason_phrases_def)

lemma backend_coping_null_analyze:
  "snd (analyzeJournalEntry backend_coping_null t) = Inr (Some example_analysis)"
  unfolding backend_coping_null_def by (rule example_analyze_ok)

lemma backend_coping_null_coping:
  "snd (getCopingSuggestion backend_coping_null b) = Inr None"
  unfolding backend_coping_null_def by (rule example_coping_null)

lemma example_null_error_message:
  "js_or (message (example_null_error name)) (js ''Something went wrong. Please try again.'')
     = message (example_null_error name)"
  by (simp add: js_or_def example_null_error_def js_def)

lemma backend_coping_null_error: "null_property_error backend_coping_null = example_null_error"
  by (simp add: backend_coping_null_def example_backend_def)

lemma string_of_nat_examples:
  "string_of_nat 404 = js ''404''" "string_of_nat 500 = js ''500''" "string_of_nat 503 = js ''503''"
  by (simp_all add: string_of_nat.simps js_def)

lemma example_state_text: "ui_state.text (example_state t) = t"
  by (simp add: example_state_def)

lemma backend_ok_analyze: "snd (analyzeJournalEntry backend_ok t) = Inr (Some example_analysis)"
  unfolding backend_ok_def by (rule example_analyze_ok)

lemma backend_ok_coping: "snd (getCopingSuggestion backend_ok b) = Inr (Some example_coping)"
  unfolding backend_ok_def by (rule example_coping_ok)

lemma backend_coping_503_analyze:
  "snd (analyzeJournalEntry backend_coping_503 t) = Inr (Some example_analysis)"
  unfolding backend_coping_503_def by (rule example_analyze_ok)

lemma backend_ok_trace:
  assumes "trim t \<noteq> []"
  shows "handleAnalyze backend_ok t =
     [SetError None, SetResult None, SetCopingText [], SetLoading True,
      Fetch (predict_request t), SetResult (Some example_analysis),
      Fetch (coping_request \<lparr>journal = t,
            CopingRequest.primary_emotion = primary_emotion example_analysis,
            CopingRequest.stress_level = stress_level example_analysis\<rparr>),
      SetCopingText (coping_text example_coping),
      SetLoading False]"
  using assms backend_ok_analyze backend_ok_coping by (rule handleAnalyze_success)

section \<open>Order of the network calls\<close>

text \<open>
  C1. A submission whose trimmed text is not empty issues exactly one POST to
  \<open>/predict\<close>, with the body \<open>{text}\<close>, and it is the first network call: every other
  call goes to \<open>/coping\<close> and so comes after it. A \<open>/coping\<close> call is made only if
  \<open>analyzeJournalEntry\<close> resolved, with an analysis.
\<close>

theorem predict_once_before_coping:
  assumes "trim t \<noteq> []"
  shows "\<exists>rest. fetches (handleAnalyze p t) = predict_request t # rest
      \<and> url (predict_request t) = js ''http://127.0.0.1:8000/predict''
      \<and> method (predict_request t) = js ''POST''
      \<and> body (predict_request t) = JObject [(js ''text'', JString t)]
      \<and> (\<forall>r \<in> set rest. url r = js ''http://127.0.0.1:8000/coping'')
      \<and> length (filter (\<lambda>r. url r = js ''http://127.0.0.1:8000/predict'')
                  (fetches (handleAnalyze p t))) = 1
      \<and> (rest \<noteq> [] \<longrightarrow> (\<exists>data. snd (analyzeJournalEntry p t) = Inr (Some data)))"
proof -
  have req: "method (predict_request t) = js ''POST''"
    "body (predict_request t) = JObject [(js ''text'', JString t)]"
    by (simp_all add: predict_request_def stringify_AnalyzeRequest_def)
  from assms show ?thesis
  proof (cases rule: handleAnalyze_paths [where p = p])
    case (analyze_fails err)
    have "fetches (handleAnalyze p t) = [predict_request t]"
      by (simp add: handleAnalyze_analyze_fails [OF assms analyze_fails])
    then show ?thesis by (simp add: req predict_url)
  next
    case analyze_null
    have "fetches (handleAnalyze p t) = [predict_request t]"
      by (simp add: handleAnalyze_analyze_null [OF assms analyze_null])
    then show ?thesis by (simp add: req predict_url)
  next
    case (coping_null data)
    have "fetches (handleAnalyze p t) =
        [predict_request t, coping_request \<lparr>journal = t,
            CopingRequest.primary_emotion = primary_emotion data,
            CopingRequest.stress_level = stress_level data\<rparr>]"
      by (simp add: handleAnalyze_coping_null [OF assms coping_null])
    then show ?thesis using coping_null(1) by (simp add: req predict_url coping_url urls_differ)
  next
    case (coping_fails data err)
    have "fetches (handleAnalyze p t) =
        [predict_request t, coping_request \<lparr>journal = t,
            CopingRequest.primary_emotion = primary_emotion data,
            CopingRequest.stress_level = stress_level data\<rparr>]"
      by (simp add: handleAnalyze_coping_fails [OF assms coping_fails])
    then show ?thesis using coping_fails(1) by (simp add: req predict_url coping_url urls_differ)
  next
    case (success data coping)
    have "fetches (handleAnalyze p t) =
        [predict_request t, coping_request \<lparr>journal = t,
            CopingRequest.primary_emotion = primary_emotion data,
            CopingRequest.stress_level = stress_level data\<rparr>]"
      by (simp add: handleAnalyze_success [OF assms success])
    then show ?thesis using success(1) by (simp add: req predict_url coping_url urls_differ)
  qed
qed

theorem predict_once_before_coping_witness:
  "trim example_text \<noteq> [] \<and>
   fetches (handleAnalyze backend_ok example_text) =
     [predict_request example_text,
      coping_request \<lparr>journal = example_text,
            CopingRequest.primary_emotion = js ''anxiety'',
            CopingRequest.stress_level = js ''high''\<rparr>] \<and>
   url (predict_request example_text) = js ''http://127.0.0.1:8000/predict'' \<and>
   method (predict_request example_text) = js ''POST'' \<and>
   body (predict_request example_text) = JObject [(js ''text'', JString example_text)] \<and>
   length (filter (\<lambda>r. url r = js ''http://127.0.0.1:8000/predict'')
                  (fetches (handleAnalyze backend_ok example_text))) = 1 \<and>
   snd (analyzeJournalEntry backend_ok example_text) = Inr (Some example_analysis)"
proof -
  have h: "trim example_text \<noteq> []"
    by (rule example_text_not_blank)
  have calls: "fetches (handleAnalyze backend_ok example_text) =
     [predict_request example_text,
      coping_request \<lparr>journal = example_text,
            CopingRequest.primary_emotion = js ''anxiety'',
            CopingRequest.stress_level = js ''high''\<rparr>]"
    unfolding backend_ok_trace [OF h] by (simp add: example_analysis_def)
  from predict_once_before_coping [OF h, of backend_ok] obtain rest
    where "fetches (handleAnalyze backend_ok example_text) = predict_request example_text # rest"
      and "url (predict_request example_text) = js ''http://127.0.0.1:8000/predict''"
      and "method (predict_request example_text) = js ''POST''"
      and "body (predict_request example_text) = JObject [(js ''text'', JString example_text)]"
      and "length (filter (\<lambda>r. url r = js ''http://127.0.0.1:8000/predict'')
                  (fetches (handleAnalyze backend_ok example_text))) = 1"
      and "rest \<noteq> [] \<longrightarrow>
           (\<exists>data. snd (analyzeJournalEntry backend_ok example_text) = Inr (Some data))"
    by blast
  with h calls backend_ok_analyze [of example_text] show ?thesis by (intro conjI)
qed

section \<open>Outcomes of a submission\<close>

text \<open>
  C2. When \<open>/predict\<close> answers with a status outside 200 to 299, the only network call
  of the submission is the one to \<open>/predict\<close> (none goes to \<open>/coping\<close>), the error state
  holds a string (the message of the client's error), the result state is still null and
  the loading flag is false when the submission completes.
\<close>

theorem predict_http_failure_stops:
  assumes "trim (ui_state.text s) \<noteq> []"
    and "fetch p (predict_request (ui_state.text s)) = Inr res" and "\<not> ok res"
  shows "fetches (handleAnalyze p (ui_state.text s)) = [predict_request (ui_state.text s)]
      \<and> url (predict_request (ui_state.text s)) \<noteq> js ''http://127.0.0.1:8000/coping''
      \<and> error (submit p s) =
          Some (js ''API error '' @ string_of_nat (status res) @ js '': ''
                @ (if response.text res = [] then statusText res else response.text res))
      \<and> error (submit p s) \<noteq> None
      \<and> result (submit p s) = None
      \<and> loading (submit p s) = False"
proof -
  let ?m = "js ''API error '' @ string_of_nat (status res) @ js '': ''
                @ (if response.text res = [] then statusText res else response.text res)"
  have fails: "snd (analyzeJournalEntry p (ui_state.text s)) = Inl (Error ?m)"
    using assms(2,3) by (rule analyze_http_failure)
  have m: "js_or (message (Error ?m)) (js ''Something went wrong. Please try again.'') = ?m"
    by (simp add: js_or_def js_def)
  note tr = handleAnalyze_analyze_fails [OF assms(1) fails]
  have "fetches (handleAnalyze p (ui_state.text s)) = [predict_request (ui_state.text s)]"
    by (simp add: tr)
  moreover have "url (predict_request (ui_state.text s)) \<noteq> js ''http://127.0.0.1:8000/coping''"
    using urls_differ by (simp add: predict_url)
  moreover have "error (submit p s) = Some ?m"
    unfolding submit_def tr m by (simp add: run_def)
  moreover have "result (submit p s) = None"
    unfolding submit_def tr by (simp add: run_def)
  moreover have "loading (submit p s) = False"
    unfolding submit_def tr by (simp add: run_def)
  ultimately show ?thesis by simp
qed

theorem predict_http_failure_stops_witness:
  "trim (ui_state.text (example_state example_text)) \<noteq> [] \<and>
   fetch backend_predict_500 (predict_request (ui_state.text (example_state example_text)))
     = Inr predict_500 \<and>
   \<not> ok predict_500 \<and>
   fetches (handleAnalyze backend_predict_500 example_text) = [predict_request example_text] \<and>
   error (submit backend_predict_500 (example_state example_text))
     = Some (js ''API error 500: boom'') \<and>
   result (submit backend_predict_500 (example_state example_text)) = None \<and>
   loading (submit backend_predict_500 (example_state example_text)) = False"
proof -
  let ?s = "example_state example_text"
  have h1: "trim (ui_state.text ?s) \<noteq> []"
    unfolding example_state_text by (rule example_text_not_blank)
  have h2: "fetch backend_predict_500 (predict_request (ui_state.text ?s)) = Inr predict_500"
    unfolding backend_predict_500_def by (rule example_fetch_predict)
  have h3: "\<not> ok predict_500"
    by (rule example_not_ok)
  have m: "js ''API error '' @ string_of_nat (status predict_500) @ js '': ''
        @ (if response.text predict_500 = [] then statusText predict_500
           else response.text predict_500)
      = js ''API error 500: boom''"
    by (simp add: predict_500_def example_response_def string_of_nat_examples)
       (simp add: js_def)
  show ?thesis
    using h1 h2 h3 predict_http_failure_stops [OF h1 h2 h3]
    unfolding m example_state_text by simp
qed

text \<open>
  C3. When the \<open>/predict\<close> call succeeds, resolving with an analysis, and \<open>/coping\<close>
  answers with a status outside 200 to 299, the result state holds the analyze response,
  the coping text is still the empty string and the error state holds a string.
\<close>

theorem coping_http_failure_keeps_result:
  assumes "trim (ui_state.text s) \<noteq> []"
    and "snd (analyzeJournalEntry p (ui_state.text s)) = Inr (Some data)"
    and "fetch p (coping_request \<lparr>journal = ui_state.text s,
            CopingRequest.primary_emotion = primary_emotion data,
            CopingRequest.stress_level = stress_level data\<rparr>) = Inr res"
    and "\<not> ok res"
  shows "result (submit p s) = Some data
      \<and> copingText (submit p s) = []
      \<and> error (submit p s) = Some (js ''Failed to get coping suggestions'')
      \<and> error (submit p s) \<noteq> None"
proof -
  let ?m = "js ''Failed to get coping suggestions''"
  have fails: "snd (getCopingSuggestion p \<lparr>journal = ui_state.text s,
            CopingRequest.primary_emotion = primary_emotion data,
            CopingRequest.stress_level = stress_level data\<rparr>) = Inl (Error ?m)"
    using assms(3,4) by (rule coping_http_failure)
  have m: "js_or (message (Error ?m)) (js ''Something went wrong. Please try again.'') = ?m"
    by (simp add: js_or_def js_def)
  note tr = handleAnalyze_coping_fails [OF assms(1,2) fails]
  have "result (submit p s) = Some data"
    unfolding submit_def tr by (simp add: run_def)
  moreover have "copingText (submit p s) = []"
    unfolding submit_def tr by (simp add: run_def)
  moreover have "error (submit p s) = Some ?m"
    unfolding submit_def tr m by (simp add: run_def)
  ultimately show ?thesis by simp
qed

theorem coping_http_failure_keeps_result_witness:
  "trim (ui_state.text (example_state example_text)) \<noteq> [] \<and>
   snd (analyzeJournalEntry backend_coping_503 (ui_state.text (example_state example_text)))
     = Inr (Some example_analysis) \<and>
   fetch backend_coping_503
     (coping_request \<lparr>journal = ui_state.text (example_state example_text),
        CopingRequest.primary_emotion = primary_emotion example_analysis,
        CopingRequest.stress_level = stress_level example_analysis\<rparr>) = Inr coping_503 \<and>
   \<not> ok coping_503 \<and>
   result (submit backend_coping_503 (example_state example_text)) = Some example_analysis \<and>
   copingText (submit backend_coping_503 (example_state example_text)) = [] \<and>
   error (submit backend_coping_503 (example_state example_text))
     = Some (js ''Failed to get coping suggestions'')"
proof -
  let ?s = "example_state example_text"
  have h1: "trim (ui_state.text ?s) \<noteq> []"
    unfolding example_state_text by (rule example_text_not_blank)
  have h2: "snd (analyzeJournalEntry backend_coping_503 (ui_state.text ?s)) = Inr (Some example_analysis)"
    by (rule backend_coping_503_analyze)
  have h3: "fetch backend_coping_503
     (coping_request \<lparr>journal = ui_state.text ?s,
        CopingRequest.primary_emotion = primary_emotion example_analysis,
        CopingRequest.stress_level = stress_level example_analysis\<rparr>) = Inr coping_503"
    unfolding backend_coping_503_def by (rule example_fetch_coping)
  have h4: "\<not> ok coping_503"
    by (rule example_not_ok)
  show ?thesis
    using h1 h2 h3 h4 coping_http_failure_keeps_result [OF h1 h2 h3 h4] by simp
qed

text \<open>
  C4. When both calls succeed and neither body parsed to \<open>null\<close>, the result state holds
  the analyze response, the coping text is the \<open>coping_text\<close> of the coping response, and
  the error state is null. The restriction is needed: the client checks no body, and the
  handler reads \<open>coping.coping_text\<close> of whatever the second call resolved with.
\<close>

theorem both_succeed:
  assumes "trim (ui_state.text s) \<noteq> []"
    and "snd (analyzeJournalEntry p (ui_state.text s)) = Inr (Some data)"
    and "snd (getCopingSuggestion p \<lparr>journal = ui_state.text s,
            CopingRequest.primary_emotion = primary_emotion data,
            CopingRequest.stress_level = stress_level data\<rparr>) = Inr (Some coping)"
  shows "result (submit p s) = Some data
      \<and> copingText (submit p s) = coping_text coping
      \<and> error (submit p s) = None"
proof -
  note tr = handleAnalyze_success [OF assms]
  have "result (submit p s) = Some data"
    unfolding submit_def tr by (simp add: run_def)
  moreover have "copingText (submit p s) = coping_text coping"
    unfolding submit_def tr by (simp add: run_def)
  moreover have "error (submit p s) = None"
    unfolding submit_def tr by (simp add: run_def)
  ultimately show ?thesis by simp
qed

theorem both_succeed_witness:
  "trim (ui_state.text (example_state example_text)) \<noteq> [] \<and>
   snd (analyzeJournalEntry backend_ok (ui_state.text (example_state example_text)))
     = Inr (Some example_analysis) \<and>
   snd (getCopingSuggestion backend_ok
     \<lparr>journal = ui_state.text (example_state example_text),
        CopingRequest.primary_emotion = primary_emotion example_analysis,
        CopingRequest.stress_level = stress_level example_analysis\<rparr>) = Inr (Some example_coping) \<and>
   result (submit backend_ok (example_state example_text)) = Some example_analysis \<and>
   copingText (submit backend_ok (example_state example_text))
     = js ''Try a short breathing exercise.'' \<and>
   error (submit backend_ok (example_state example_text)) = None"
proof -
  let ?s = "example_state example_text"
  have h1: "trim (ui_state.text ?s) \<noteq> []"
    unfolding example_state_text by (rule example_text_not_blank)
  have h2: "snd (analyzeJournalEntry backend_ok (ui_state.text ?s)) = Inr (Some example_analysis)"
    by (rule backend_ok_analyze)
  have h3: "snd (getCopingSuggestion backend_ok
     \<lparr>journal = ui_state.text ?s,
        CopingRequest.primary_emotion = primary_emotion example_analysis,
        CopingRequest.stress_level = stress_level example_analysis\<rparr>) = Inr (Some example_coping)"
    by (rule backend_ok_coping)
  show ?thesis
    using h1 h2 h3 both_succeed [OF h1 h2 h3] by (simp add: example_coping_def)
qed

text \<open>
  Without the restriction the statement fails. Both calls are answered with status 200
  and both client functions resolve, the second with the \<open>null\<close> that its body parsed to:
  reading \<open>coping_text\<close> throws inside the \<open>try\<close>, and the \<open>catch\<close> sets the error state.
\<close>

theorem both_succeed_null_counterexample:
  "trim (ui_state.text (example_state example_text)) \<noteq> [] \<and>
   fetch backend_coping_null (predict_request example_text)
     = Inr (example_response 200 (js ''OK'') (js ''{}'')) \<and>
   ok (example_response 200 (js ''OK'') (js ''{}'')) \<and>
   snd (analyzeJournalEntry backend_coping_null example_text) = Inr (Some example_analysis) \<and>
   fetch backend_coping_null
     (coping_request \<lparr>journal = example_text,
        CopingRequest.primary_emotion = primary_emotion example_analysis,
        CopingRequest.stress_level = stress_level example_analysis\<rparr>)
     = Inr (example_response 200 (js ''OK'') (js ''null'')) \<and>
   ok (example_response 200 (js ''OK'') (js ''null'')) \<and>
   snd (getCopingSuggestion backend_coping_null
     \<lparr>journal = example_text,
        CopingRequest.primary_emotion = primary_emotion example_analysis,
        CopingRequest.stress_level = stress_level example_analysis\<rparr>) = Inr None \<and>
   result (submit backend_coping_null (example_state example_text)) = Some example_analysis \<and>
   copingText (submit backend_coping_null (example_state example_text)) = [] \<and>
   error (submit backend_coping_null (example_state example_text))
     = Some (message (example_null_error (js ''coping_text''))) \<and>
   error (submit backend_coping_null (example_state example_text)) \<noteq> None"
proof -
  let ?s = "example_state example_text"
  let ?b = "\<lparr>journal = example_text,
        CopingRequest.primary_emotion = primary_emotion example_analysis,
        CopingRequest.stress_level = stress_level example_analysis\<rparr>"
  have h: "trim (ui_state.text ?s) \<noteq> []"
    unfolding example_state_text by (rule example_text_not_blank)
  have f1: "fetch backend_coping_null (predict_request example_text)
      = Inr (example_response 200 (js ''OK'') (js ''{}''))"
    unfolding backend_coping_null_def by (rule example_fetch_predict)
  have f2: "fetch backend_coping_null (coping_request ?b)
      = Inr (example_response 200 (js ''OK'') (js ''null''))"
    unfolding backend_coping_null_def by (rule example_fetch_coping)
  have a: "snd (analyzeJournalEntry backend_coping_null example_text) = Inr (Some example_analysis)"
    by (rule backend_coping_null_analyze)
  have c: "snd (getCopingSuggestion backend_coping_null ?b) = Inr None"
    by (rule backend_coping_null_coping)
  note tr = handleAnalyze_coping_null [OF example_text_not_blank a c]
  have r: "result (submit backend_coping_null ?s) = Some example_analysis"
    unfolding submit_def example_state_text tr by (simp add: run_def)
  have ct: "copingText (submit backend_coping_null ?s) = []"
    unfolding submit_def example_state_text tr by (simp add: run_def)
  have e: "error (submit backend_coping_null ?s)
      = Some (message (example_null_error (js ''coping_text'')))"
    unfolding submit_def example_state_text tr backend_coping_null_error
      example_null_error_message
    by (simp add: run_def)
  then have ne: "error (submit backend_coping_null ?s) \<noteq> None"
    by simp
  from h f1 example_ok f2 example_ok a c r ct e ne show ?thesis
    by (intro conjI)
qed

text \<open>
  C5. A submission whose trimmed text is empty (the empty text, or white space only)
  makes no network call and sets the error state to the fixed validation message.
\<close>

theorem blank_text_rejected:
  assumes "trim (ui_state.text s) = []"
  shows "fetches (handleAnalyze p (ui_state.text s)) = []
      \<and> (\<forall>e \<in> set (handleAnalyze p (ui_state.text s)). \<not> is_Fetch e)
      \<and> error (submit p s) = Some (js ''Please write a short journal entry first.'')"
proof -
  note tr = handleAnalyze_blank [OF assms]
  have "fetches (handleAnalyze p (ui_state.text s)) = []"
    by (simp add: tr)
  moreover have "\<forall>e \<in> set (handleAnalyze p (ui_state.text s)). \<not> is_Fetch e"
    by (simp add: tr)
  moreover have "error (submit p s) = Some (js ''Please write a short journal entry first.'')"
    unfolding submit_def tr by (simp add: run_def)
  ultimately show ?thesis by simp
qed

theorem blank_text_rejected_witness:
  "trim (ui_state.text (example_state blank_text)) = [] \<and>
   fetches (handleAnalyze backend_ok (ui_state.text (example_state blank_text))) = [] \<and>
   error (submit backend_ok (example_state blank_text))
     = Some (js ''Please write a short journal entry first.'')"
proof -
  have h: "trim (ui_state.text (example_state blank_text)) = []"
    unfolding example_state_text by (rule blank_text_blank)
  show ?thesis
    using h blank_text_rejected [OF h] by simp
qed

section \<open>Errors of the API client\<close>

text \<open>
  C6. When \<open>/predict\<close> answers with a status outside 200 to 299, \<open>analyzeJournalEntry\<close>
  fails with the message \<open>API error\<close>, the status code in decimal, a colon and the body
  text of the response; when the body is empty, \<open>res.statusText\<close> stands in its place:
  the phrase that the server sent with the status, whether or not it is the standard one
  for that status, and the empty string when the server sent none.
\<close>

theorem analyze_error_carries_status_and_body:
  assumes "fetch p (predict_request t) = Inr res" and "\<not> ok res"
  shows "\<exists>m. snd (analyzeJournalEntry p t) = Inl (Error m)
      \<and> m = js ''API error '' @ string_of_nat (status res) @ js '': ''
             @ (if response.text res = [] then statusText res else response.text res)
      \<and> sublist (string_of_nat (status res)) m
      \<and> suffix (if response.text res = [] then statusText res else response.text res) m"
proof -
  let ?d = "if response.text res = [] then statusText res else response.text res"
  let ?m = "js ''API error '' @ string_of_nat (status res) @ js '': '' @ ?d"
  have "snd (analyzeJournalEntry p t) = Inl (Error ?m)"
    using assms by (rule analyze_http_failure)
  moreover have "sublist (string_of_nat (status res)) ?m"
    by (rule sublist_appendI)
  moreover have "suffix ?d ?m"
    unfolding suffix_def by (rule exI [of _ "js ''API error '' @ string_of_nat (status res) @ js '': ''"]) simp
  ultimately show ?thesis by blast
qed

theorem analyze_error_carries_status_and_body_witness:
  "fetch backend_predict_500 (predict_request example_text) = Inr predict_500 \<and>
   \<not> ok predict_500 \<and>
   snd (analyzeJournalEntry backend_predict_500 example_text)
     = Inl (Error (js ''API error 500: boom'')) \<and>
   fetch backend_predict_404 (predict_request example_text) = Inr predict_404 \<and>
   \<not> ok predict_404 \<and>
   snd (analyzeJournalEntry backend_predict_404 example_text)
     = Inl (Error (js ''API error 404: Not Found'')) \<and>
   fetch backend_predict_teapot (predict_request example_text) = Inr predict_teapot \<and>
   \<not> ok predict_teapot \<and>
   snd (analyzeJournalEntry backend_predict_teapot example_text)
     = Inl (Error (js ''API error 404: Teapot''))"
proof -
  have c1: "fetch backend_predict_teapot (predict_request example_text) = Inr predict_teapot"
    unfolding backend_predict_teapot_def by (rule example_fetch_predict)
  have c2: "\<not> ok predict_teapot" by (rule example_not_ok)
  have mtea: "js ''API error '' @ string_of_nat (status predict_teapot) @ js '': ''
        @ (if response.text predict_teapot = [] then statusText predict_teapot
           else response.text predict_teapot)
      = js ''API error 404: Teapot''"
    by (simp add: predict_teapot_def example_response_def string_of_nat_examples)
       (simp add: js_def)
  have a1: "fetch backend_predict_500 (predict_request example_text) = Inr predict_500"
    unfolding backend_predict_500_def by (rule example_fetch_predict)
  have a2: "\<not> ok predict_500" by (rule example_not_ok)
  have b1: "fetch backend_predict_404 (predict_request example_text) = Inr predict_404"
    unfolding backend_predict_404_def by (rule example_fetch_predict)
  have b2: "\<not> ok predict_404" by (rule example_not_ok)
  have m500: "js ''API error '' @ string_of_nat (status predict_500) @ js '': ''
        @ (if response.text predict_500 = [] then statusText predict_500
           else response.text predict_500)
      = js ''API error 500: boom''"
    by (simp add: predict_500_def example_response_def string_of_nat_examples)
       (simp add: js_def)
  have m404: "js ''API error '' @ string_of_nat (status predict_404) @ js '': ''
        @ (if response.text predict_404 = [] then statusText predict_404
           else response.text predict_404)
      = js ''API error 404: Not Found''"
    by (simp add: predict_404_def example_response_def string_of_nat_examples)
       (simp add: js_def)
  show ?thesis
    using a1 a2 b1 b2 c1 c2
      analyze_error_carries_status_and_body [OF a1 a2]
      analyze_error_carries_status_and_body [OF b1 b2]
      analyze_error_carries_status_and_body [OF c1 c2]
    unfolding m500 m404 mtea by simp
qed

text \<open>
  With the standard reason phrase of the status in place of \<open>res.statusText\<close> the
  statement fails: a 404 with an empty body and the phrase \<open>Teapot\<close>, or with no phrase
  at all, does not give the message that ends in \<open>Not Found\<close>.
\<close>

theorem analyze_error_reason_phrase_counterexample:
  "fetch backend_predict_teapot (predict_request example_text) = Inr predict_teapot \<and>
   \<not> ok predict_teapot \<and>
   status predict_teapot = 404 \<and>
   response.text predict_teapot = [] \<and>
   standard_reason_phrase 404 = Some (js ''Not Found'') \<and>
   snd (analyzeJournalEntry backend_predict_teapot example_text)
     = Inl (Error (js ''API error 404: Teapot'')) \<and>
   snd (analyzeJournalEntry backend_predict_teapot example_text)
     \<noteq> Inl (Error (js ''API error 404: Not Found'')) \<and>
   fetch backend_predict_no_phrase (predict_request example_text) = Inr predict_no_phrase \<and>
   \<not> ok predict_no_phrase \<and>
   status predict_no_phrase = 404 \<and>
   response.text predict_no_phrase = [] \<and>
   snd (analyzeJournalEntry backend_predict_no_phrase example_text)
     = Inl (Error (js ''API error 404: '')) \<and>
   snd (analyzeJournalEntry backend_predict_no_phrase example_text)
     \<noteq> Inl (Error (js ''API error 404: Not Found''))"
proof -
  have a1: "fetch backend_predict_teapot (predict_request example_text) = Inr predict_teapot"
    unfolding backend_predict_teapot_def by (rule example_fetch_predict)
  have a2: "\<not> ok predict_teapot" by (rule example_not_ok)
  have a3: "status predict_teapot = 404" "response.text predict_teapot = []"
    by (simp_all add: predict_teapot_def example_response_def)
  have b1: "fetch backend_predict_no_phrase (predict_request example_text) = Inr predict_no_phrase"
    unfolding backend_predict_no_phrase_def by (rule example_fetch_predict)
  have b2: "\<not> ok predict_no_phrase" by (rule example_not_ok)
  have b3: "status predict_no_phrase = 404" "response.text predict_no_phrase = []"
    by (simp_all add: predict_no_phrase_def example_response_def)
  have ma: "snd (analyzeJournalEntry backend_predict_teapot example_text)
      = Inl (Error (js ''API error 404: Teapot''))"
    unfolding analyze_http_failure [OF a1 a2]
    by (simp add: predict_teapot_def example_response_def string_of_nat_examples)
       (simp add: js_def)
  have mb: "snd (analyzeJournalEntry backend_predict_no_phrase example_text)
      = Inl (Error (js ''API error 404: ''))"
    unfolding analyze_http_failure [OF b1 b2]
    by (simp add: predict_no_phrase_def example_response_def string_of_nat_examples)
       (simp add: js_def)
  have na: "snd (analyzeJournalEntry backend_predict_teapot example_text)
      \<noteq> Inl (Error (js ''API error 404: Not Found''))"
    unfolding ma by (simp add: js_def)
  have nb: "snd (analyzeJournalEntry backend_predict_no_phrase example_text)
      \<noteq> Inl (Error (js ''API error 404: Not Found''))"
    unfolding mb by (simp add: js_def)
  from a1 a2 a3 standard_reason_phrase_404 ma na b1 b2 b3 mb nb show ?thesis
    by (intro conjI)
qed

text \<open>
  C7. When \<open>/coping\<close> answers with a status outside 200 to 299, \<open>getCopingSuggestion\<close>
  fails with one fixed message, the same for every such response: no part of it is taken
  from the response, and the decimal status code does not occur in it.
\<close>

theorem coping_error_is_generic:
  assumes "fetch p (coping_request b) = Inr res" and "\<not> ok res"
  shows "snd (getCopingSuggestion p b) = Inl (Error (js ''Failed to get coping suggestions''))
      \<and> \<not> sublist (string_of_nat (status res)) (js ''Failed to get coping suggestions'')"
  using assms by (simp add: coping_http_failure status_not_in_coping_message)

theorem coping_error_is_generic_witness:
  "fetch backend_coping_503 (coping_request \<lparr>journal = example_text,
        CopingRequest.primary_emotion = js ''anxiety'',
        CopingRequest.stress_level = js ''high''\<rparr>) = Inr coping_503 \<and>
   \<not> ok coping_503 \<and>
   snd (getCopingSuggestion backend_coping_503 \<lparr>journal = example_text,
        CopingRequest.primary_emotion = js ''anxiety'',
        CopingRequest.stress_level = js ''high''\<rparr>)
     = Inl (Error (js ''Failed to get coping suggestions'')) \<and>
   \<not> sublist (js ''503'') (js ''Failed to get coping suggestions'')"
proof -
  let ?b = "\<lparr>journal = example_text,
        CopingRequest.primary_emotion = js ''anxiety'',
        CopingRequest.stress_level = js ''high''\<rparr>"
  have h1: "fetch backend_coping_503 (coping_request ?b) = Inr coping_503"
    unfolding backend_coping_503_def by (rule example_fetch_coping)
  have h2: "\<not> ok coping_503" by (rule example_not_ok)
  have st: "string_of_nat (status coping_503) = js ''503''"
    by (simp add: coping_503_def example_response_def string_of_nat_examples)
  show ?thesis
    using h1 h2 coping_error_is_generic [OF h1 h2] unfolding st by simp
qed

section \<open>The loading flag, and what a submission leaves alone\<close>

text \<open>
  C8. A submission that passed validation calls \<open>setLoading(true)\<close> before its first
  network call and \<open>setLoading(false)\<close> as its last effect, with no other call of
  \<open>setLoading\<close> in between, whichever way the two network calls went; the flag is false
  in the state the finished submission leaves.
\<close>

theorem loading_brackets_network_calls:
  assumes "trim (ui_state.text s) \<noteq> []"
  shows "(\<exists>pre post. handleAnalyze p (ui_state.text s) = pre @ SetLoading True # post
            \<and> fetches pre = [] \<and> fetches post \<noteq> [])
      \<and> loading_updates (handleAnalyze p (ui_state.text s)) = [True, False]
      \<and> last (handleAnalyze p (ui_state.text s)) = SetLoading False
      \<and> loading (submit p s) = False"
proof -
  let ?pre = "[SetError None, SetResult None, SetCopingText []]"
  from assms show ?thesis
  proof (cases rule: handleAnalyze_paths [where p = p])
    case (analyze_fails err)
    note tr = handleAnalyze_analyze_fails [OF assms analyze_fails]
    have "\<exists>post. handleAnalyze p (ui_state.text s) = ?pre @ SetLoading True # post
            \<and> fetches ?pre = [] \<and> fetches post \<noteq> []"
      by (simp add: tr)
    moreover have "loading_updates (handleAnalyze p (ui_state.text s)) = [True, False]"
      by (simp add: tr)
    moreover have "last (handleAnalyze p (ui_state.text s)) = SetLoading False"
      by (simp add: tr)
    moreover have "loading (submit p s) = False"
      unfolding submit_def tr by (simp add: run_def)
    ultimately show ?thesis by blast
  next
    case analyze_null
    note tr = handleAnalyze_analyze_null [OF assms analyze_null]
    have "\<exists>post. handleAnalyze p (ui_state.text s) = ?pre @ SetLoading True # post
            \<and> fetches ?pre = [] \<and> fetches post \<noteq> []"
      by (simp add: tr)
    moreover have "loading_updates (handleAnalyze p (ui_state.text s)) = [True, False]"
      by (simp add: tr)
    moreover have "last (handleAnalyze p (ui_state.text s)) = SetLoading False"
      by (simp add: tr)
    moreover have "loading (submit p s) = False"
      unfolding submit_def tr by (simp add: run_def)
    ultimately show ?thesis by blast
  next
    case (coping_fails data err)
    note tr = handleAnalyze_coping_fails [OF assms coping_fails]
    have "\<exists>post. handleAnalyze p (ui_state.text s) = ?pre @ SetLoading True # post
            \<and> fetches ?pre = [] \<and> fetches post \<noteq> []"
      by (simp add: tr)
    moreover have "loading_updates (handleAnalyze p (ui_state.text s)) = [True, False]"
      by (simp add: tr)
    moreover have "last (handleAnalyze p (ui_state.text s)) = SetLoading False"
      by (simp add: tr)
    moreover have "loading (submit p s) = False"
      unfolding submit_def tr by (simp add: run_def)
    ultimately show ?thesis by blast
  next
    case (coping_null data)
    note tr = handleAnalyze_coping_null [OF assms coping_null]
    have "\<exists>post. handleAnalyze p (ui_state.text s) = ?pre @ SetLoading True # post
            \<and> fetches ?pre = [] \<and> fetches post \<noteq> []"
      by (simp add: tr)
    moreover have "loading_updates (handleAnalyze p (ui_state.text s)) = [True, False]"
      by (simp add: tr)
    moreover have "last (handleAnalyze p (ui_state.text s)) = SetLoading False"
      by (simp add: tr)
    moreover have "loading (submit p s) = False"
      unfolding submit_def tr by (simp add: run_def)
    ultimately show ?thesis by blast
  next
    case (success data coping)
    note tr = handleAnalyze_success [OF assms success]
    have "\<exists>post. handleAnalyze p (ui_state.text s) = ?pre @ SetLoading True # post
            \<and> fetches ?pre = [] \<and> fetches post \<noteq> []"
      by (simp add: tr)
    moreover have "loading_updates (handleAnalyze p (ui_state.text s)) = [True, False]"
      by (simp add: tr)
    moreover have "last (handleAnalyze p (ui_state.text s)) = SetLoading False"
      by (simp add: tr)
    moreover have "loading (submit p s) = False"
      unfolding submit_def tr by (simp add: run_def)
    ultimately show ?thesis by blast
  qed
qed

theorem loading_brackets_network_calls_witness:
  "trim (ui_state.text (example_state example_text)) \<noteq> [] \<and>
   \<not> loading (example_state example_text) \<and>
   handleAnalyze backend_ok (ui_state.text (example_state example_text)) =
     [SetError None, SetResult None, SetCopingText []]
       @ SetLoading True
       # [Fetch (predict_request example_text),
          SetResult (Some example_analysis),
          Fetch (coping_request \<lparr>journal = example_text,
            CopingRequest.primary_emotion = js ''anxiety'',
            CopingRequest.stress_level = js ''high''\<rparr>),
          SetCopingText (js ''Try a short breathing exercise.''),
          SetLoading False] \<and>
   loading_updates (handleAnalyze backend_ok (ui_state.text (example_state example_text)))
     = [True, False] \<and>
   last (handleAnalyze backend_ok (ui_state.text (example_state example_text)))
     = SetLoading False \<and>
   loading (submit backend_ok (example_state example_text)) = False \<and>
   loading (submit backend_predict_500 (example_state example_text)) = False \<and>
   loading (submit backend_predict_null (example_state example_text)) = False \<and>
   loading (submit backend_coping_503 (example_state example_text)) = False \<and>
   loading (submit backend_coping_null (example_state example_text)) = False"
proof -
  let ?s = "example_state example_text"
  have h: "trim (ui_state.text ?s) \<noteq> []"
    unfolding example_state_text by (rule example_text_not_blank)
  have idle: "\<not> loading ?s"
    by (simp add: example_state_def)
  have tr: "handleAnalyze backend_ok (ui_state.text ?s) =
     [SetError None, SetResult None, SetCopingText []]
       @ SetLoading True
       # [Fetch (predict_request example_text),
          SetResult (Some example_analysis),
          Fetch (coping_request \<lparr>journal = example_text,
            CopingRequest.primary_emotion = js ''anxiety'',
            CopingRequest.stress_level = js ''high''\<rparr>),
          SetCopingText (js ''Try a short breathing exercise.''),
          SetLoading False]"
    unfolding example_state_text backend_ok_trace [OF example_text_not_blank]
    by (simp add: example_analysis_def example_coping_def)
  note ok = loading_brackets_network_calls [OF h, of backend_ok]
  note p500 = loading_brackets_network_calls [OF h, of backend_predict_500]
  note pnull = loading_brackets_network_calls [OF h, of backend_predict_null]
  note c503 = loading_brackets_network_calls [OF h, of backend_coping_503]
  note cnull = loading_brackets_network_calls [OF h, of backend_coping_null]
  from ok have u: "loading_updates (handleAnalyze backend_ok (ui_state.text ?s)) = [True, False]"
    by simp
  from ok have l: "last (handleAnalyze backend_ok (ui_state.text ?s)) = SetLoading False"
    by simp
  from ok have l1: "loading (submit backend_ok ?s) = False" by simp
  from p500 have l2: "loading (submit backend_predict_500 ?s) = False" by simp
  from pnull have l3: "loading (submit backend_predict_null ?s) = False" by simp
  from c503 have l4: "loading (submit backend_coping_503 ?s) = False" by simp
  from cnull have l5: "loading (submit backend_coping_null ?s) = False" by simp
  from h idle tr u l l1 l2 l3 l4 l5 show ?thesis by (intro conjI)
qed

text \<open>
  C9. A submission changes neither the text of the input nor the page, on any path.
\<close>

theorem submit_keeps_text_and_page:
  "ui_state.text (submit p s) = ui_state.text s \<and> page (submit p s) = page s"
proof (cases "trim (ui_state.text s) = []")
  case True
  show ?thesis
    unfolding submit_def handleAnalyze_blank [OF True] by (simp add: run_def)
next
  case False
  then show ?thesis
  proof (cases rule: handleAnalyze_paths [where p = p])
    case (analyze_fails err)
    show ?thesis
      unfolding submit_def handleAnalyze_analyze_fails [OF False analyze_fails]
      by (simp add: run_def)
  next
    case analyze_null
    show ?thesis
      unfolding submit_def handleAnalyze_analyze_null [OF False analyze_null]
      by (simp add: run_def)
  next
    case (coping_null data)
    show ?thesis
      unfolding submit_def handleAnalyze_coping_null [OF False coping_null]
      by (simp add: run_def)
  next
    case (coping_fails data err)
    show ?thesis
      unfolding submit_def handleAnalyze_coping_fails [OF False coping_fails]
      by (simp add: run_def)
  next
    case (success data coping)
    show ?thesis
      unfolding submit_def handleAnalyze_success [OF False success]
      by (simp add: run_def)
  qed
qed

text \<open>
  C10. Every request to \<open>/coping\<close> that a submission makes carries, as \<open>journal\<close>, the
  text as it was submitted (not trimmed), and as \<open>primary_emotion\<close> and \<open>stress_level\<close> the
  two fields of the analyze response that \<open>analyzeJournalEntry\<close> resolved with.
\<close>

theorem coping_request_fields:
  assumes "Fetch r \<in> set (handleAnalyze p t)"
    and "url r = js ''http://127.0.0.1:8000/coping''"
  shows "\<exists>data. snd (analyzeJournalEntry p t) = Inr (Some data)
      \<and> r = coping_request \<lparr>journal = t,
            CopingRequest.primary_emotion = primary_emotion data,
            CopingRequest.stress_level = stress_level data\<rparr>
      \<and> body r = JObject [(js ''journal'', JString t),
                          (js ''primary_emotion'', JString (primary_emotion data)),
                          (js ''stress_level'', JString (stress_level data))]"
proof (cases "trim t = []")
  case True
  with assms(1) show ?thesis
    by (simp add: handleAnalyze_blank)
next
  case False
  have not_predict: "r \<noteq> predict_request t"
    using assms(2) urls_differ by (auto simp: predict_url)
  have body_eq: "body (coping_request \<lparr>journal = t,
            CopingRequest.primary_emotion = primary_emotion data,
            CopingRequest.stress_level = stress_level data\<rparr>)
      = JObject [(js ''journal'', JString t),
                 (js ''primary_emotion'', JString (primary_emotion data)),
                 (js ''stress_level'', JString (stress_level data))]" for data
    by (simp add: coping_request_def stringify_CopingRequest_def)
  from False show ?thesis
  proof (cases rule: handleAnalyze_paths [where p = p])
    case (analyze_fails err)
    with assms(1) not_predict show ?thesis
      by (simp add: handleAnalyze_analyze_fails [OF False analyze_fails])
  next
    case analyze_null
    with assms(1) not_predict show ?thesis
      by (simp add: handleAnalyze_analyze_null [OF False analyze_null])
  next
    case (coping_null data)
    have "r = coping_request \<lparr>journal = t,
            CopingRequest.primary_emotion = primary_emotion data,
            CopingRequest.stress_level = stress_level data\<rparr>"
      using assms(1) not_predict
      by (simp add: handleAnalyze_coping_null [OF False coping_null])
    with coping_null(1) body_eq show ?thesis by simp
  next
    case (coping_fails data err)
    have "r = coping_request \<lparr>journal = t,
            CopingRequest.primary_emotion = primary_emotion data,
            CopingRequest.stress_level = stress_level data\<rparr>"
      using assms(1) not_predict
      by (simp add: handleAnalyze_coping_fails [OF False coping_fails])
    with coping_fails(1) body_eq show ?thesis by simp
  next
    case (success data coping)
    have "r = coping_request \<lparr>journal = t,
            CopingRequest.primary_emotion = primary_emotion data,
            CopingRequest.stress_level = stress_level data\<rparr>"
      using assms(1) not_predict
      by (simp add: handleAnalyze_success [OF False success])
    with success(1) body_eq show ?thesis by simp
  qed
qed

theorem coping_request_fields_witness:
  "Fetch (coping_request \<lparr>journal = padded_text,
            CopingRequest.primary_emotion = js ''anxiety'',
            CopingRequest.stress_level = js ''high''\<rparr>)
     \<in> set (handleAnalyze backend_ok padded_text) \<and>
   url (coping_request \<lparr>journal = padded_text,
            CopingRequest.primary_emotion = js ''anxiety'',
            CopingRequest.stress_level = js ''high''\<rparr>) = js ''http://127.0.0.1:8000/coping'' \<and>
   body (coping_request \<lparr>journal = padded_text,
            CopingRequest.primary_emotion = js ''anxiety'',
            CopingRequest.stress_level = js ''high''\<rparr>)
     = JObject [(js ''journal'', JString (js ''  I feel overwhelmed today '')),
                (js ''primary_emotion'', JString (js ''anxiety'')),
                (js ''stress_level'', JString (js ''high''))] \<and>
   trim padded_text = js ''I feel overwhelmed today''"
proof -
  let ?r = "coping_request \<lparr>journal = padded_text,
            CopingRequest.primary_emotion = js ''anxiety'',
            CopingRequest.stress_level = js ''high''\<rparr>"
  have h1: "Fetch ?r \<in> set (handleAnalyze backend_ok padded_text)"
    unfolding backend_ok_trace [OF padded_text_not_blank]
    by (simp add: example_analysis_def)
  have h2: "url ?r = js ''http://127.0.0.1:8000/coping''"
    by (rule coping_url)
  from coping_request_fields [OF h1 h2] obtain data
    where d: "snd (analyzeJournalEntry backend_ok padded_text) = Inr (Some data)"
      and b: "body ?r = JObject [(js ''journal'', JString padded_text),
                          (js ''primary_emotion'', JString (primary_emotion data)),
                          (js ''stress_level'', JString (stress_level data))]"
    by blast
  from d have "data = example_analysis"
    by (simp add: backend_ok_analyze)
  with b have "body ?r = JObject [(js ''journal'', JString (js ''  I feel overwhelmed today '')),
                (js ''primary_emotion'', JString (js ''anxiety'')),
                (js ''stress_level'', JString (js ''high''))]"
    by (simp add: example_analysis_def padded_text_def)
  moreover have "trim padded_text = js ''I feel overwhelmed today''"
    using padded_text_trimmed by (simp add: example_text_def)
  ultimately show ?thesis using h1 h2 by (intro conjI)
qed

end
